theory Spec2Isabelle
  imports Complex_Main "HOL-Library.Sublist" "HOL-Library.Log_Nat"
begin

section \<open>JavaScript values and strings\<close>

text \<open>
  The catalog, the practice exercises and the stored progress all reach \<open>script.js\<close> as
  parsed JSON, so a field of an entry may hold any JSON value, or be absent. Strings are
  byte strings; \<open>toLowerCase\<close> and \<open>trim\<close> are modelled on the ASCII range (letters
  \<open>A\<close> to \<open>Z\<close>; the white space characters tab, line feed, vertical tab, form feed,
  carriage return and space).
\<close>

datatype json =
    JNull
  | JBool bool
  | JNum rat
  | JStr string
  | JArr "json list"
  | JObj "(string \<times> json) list"

datatype error = TypeError | SyntaxError

definition toLowerCase_char :: "char \<Rightarrow> char" where
  "toLowerCase_char c =
     (let n = (of_char c :: nat) in if 65 \<le> n \<and> n \<le> 90 then char_of (n + 32) else c)"

definition toLowerCase :: "string \<Rightarrow> string" where
  "toLowerCase s = map toLowerCase_char s"

definition isWhiteSpace :: "char \<Rightarrow> bool" where
  "isWhiteSpace c = ((of_char c :: nat) \<in> {9, 10, 11, 12, 13, 32})"

definition trim :: "string \<Rightarrow> string" where
  "trim s = rev (dropWhile isWhiteSpace (rev (dropWhile isWhiteSpace s)))"

text \<open>\<open>s.includes(t)\<close> for two strings: \<open>t\<close> occurs in \<open>s\<close> at some position.\<close>

fun str_includes :: "string \<Rightarrow> string \<Rightarrow> bool" where
  "str_includes [] t = (t = [])"
| "str_includes (c # s) t = (prefix t (c # s) \<or> str_includes s t)"

section \<open>Arrays and callbacks that may throw\<close>

text \<open>
  \<open>Array.prototype.some\<close> stops at the first element whose callback result is true;
  \<open>Array.prototype.filter\<close> visits every element. An exception thrown by the callback
  leaves either loop at once.
\<close>

fun js_some :: "('a \<Rightarrow> error + bool) \<Rightarrow> 'a list \<Rightarrow> error + bool" where
  "js_some f [] = Inr False"
| "js_some f (x # xs) =
     (case f x of
        Inl e \<Rightarrow> Inl e
      | Inr b \<Rightarrow> if b then Inr True else js_some f xs)"

fun js_filter :: "('a \<Rightarrow> error + bool) \<Rightarrow> 'a list \<Rightarrow> error + 'a list" where
  "js_filter f [] = Inr []"
| "js_filter f (x # xs) =
     (case f x of
        Inl e \<Rightarrow> Inl e
      | Inr b \<Rightarrow>
          (case js_filter f xs of
             Inl e \<Rightarrow> Inl e
           | Inr ys \<Rightarrow> Inr (if b then x # ys else ys)))"

text \<open>\<open>a || b\<close> on booleans: \<open>b\<close> is evaluated, and may throw, only when \<open>a\<close> is false.\<close>

definition js_or :: "bool \<Rightarrow> (error + bool) \<Rightarrow> error + bool" where
  "js_or a b = (if a then Inr True else b)"

text \<open>
  Method calls on a field that holds an arbitrary JSON value (\<open>None\<close>: the field is
  absent, its value is \<open>undefined\<close>). Only an array has \<open>some\<close>; arrays and strings have
  \<open>includes\<close>; only a string has \<open>toLowerCase\<close>. Calling a method the value does not
  have, or any method on \<open>undefined\<close> or \<open>null\<close>, throws a TypeError.
\<close>

definition call_some :: "json option \<Rightarrow> (json \<Rightarrow> error + bool) \<Rightarrow> error + bool" where
  "call_some v f = (case v of Some (JArr xs) \<Rightarrow> js_some f xs | _ \<Rightarrow> Inl TypeError)"

definition call_includes :: "json option \<Rightarrow> string \<Rightarrow> error + bool" where
  "call_includes v t =
     (case v of
        Some (JArr xs) \<Rightarrow> Inr (JStr t \<in> set xs)
      | Some (JStr s) \<Rightarrow> Inr (str_includes s t)
      | _ \<Rightarrow> Inl TypeError)"

definition call_toLowerCase :: "json \<Rightarrow> error + string" where
  "call_toLowerCase v = (case v of JStr s \<Rightarrow> Inr (toLowerCase s) | _ \<Rightarrow> Inl TypeError)"

section \<open>Filter engine: \<open>handleSearch\<close>, \<open>handleFilter\<close>, \<open>applyFilters\<close>\<close>

text \<open>
  A challenge of the catalog. \<open>title\<close>, \<open>description\<close> and \<open>difficulty\<close> are taken to be
  present strings; \<open>tags\<close> is whatever the catalog document holds under that key.
\<close>

record challenge =
  challenge_id :: int
  title :: string
  description :: string
  tags :: "json option"
  difficulty :: string

text \<open>
  What \<open>applyFilters\<close> reads from the page: the text of the search box, the
  \<open>data-value\<close> of the active difficulty button (\<open>None\<close> when no button is active) and
  the \<open>data-value\<close>s of the active tag chips.
\<close>

record dom =
  search_input :: string
  active_difficulty :: "string option"
  active_tags :: "string list"

text \<open>The callback of \<open>this.challengeData.challenges.filter\<close> (lines 220 to 234).\<close>

definition challengeMatches :: "string \<Rightarrow> string \<Rightarrow> string list \<Rightarrow> challenge \<Rightarrow> error + bool" where
  "challengeMatches searchTerm activeDifficulty activeTags c =
     (case js_or (searchTerm = [])
             (js_or (str_includes (toLowerCase (title c)) searchTerm)
                (js_or (str_includes (toLowerCase (description c)) searchTerm)
                   (call_some (tags c)
                      (\<lambda>tag. case call_toLowerCase tag of
                                Inl e \<Rightarrow> Inl e
                              | Inr s \<Rightarrow> Inr (str_includes s searchTerm))))) of
        Inl e \<Rightarrow> Inl e
      | Inr matchesSearch \<Rightarrow>
          (let matchesDifficulty =
                 (activeDifficulty = ''all'' \<or> difficulty c = activeDifficulty)
           in case js_or (length activeTags = 0)
                     (js_some (\<lambda>tag. call_includes (tags c) tag) activeTags) of
                Inl e \<Rightarrow> Inl e
              | Inr matchesTags \<Rightarrow> Inr (matchesSearch \<and> matchesDifficulty \<and> matchesTags)))"

text \<open>
  \<open>renderChallenges\<close> builds a card for every filtered challenge;
  \<open>createChallengeCard\<close> evaluates \<open>challenge.tags.slice(0, 3).map(...)\<close>, which only an
  array survives (a string has \<open>slice\<close> but its result has no \<open>map\<close>). The elements of
  the page that both methods write to are taken to exist.
\<close>

definition createChallengeCard :: "challenge \<Rightarrow> error + unit" where
  "createChallengeCard c = (case tags c of Some (JArr xs) \<Rightarrow> Inr () | _ \<Rightarrow> Inl TypeError)"

fun renderChallenges :: "challenge list \<Rightarrow> error + unit" where
  "renderChallenges [] = Inr ()"
| "renderChallenges (c # cs) =
     (case createChallengeCard c of Inl e \<Rightarrow> Inl e | Inr _ \<Rightarrow> renderChallenges cs)"

text \<open>
  \<open>applyFilters(searchTerm = '')\<close>: the result is the value the method leaves in
  \<open>this.filteredChallenges\<close> when it returns, or the exception that leaves it, thrown by
  the filter callback or by the rendering that follows the assignment.
\<close>

definition applyFilters :: "dom \<Rightarrow> challenge list \<Rightarrow> string \<Rightarrow> error + challenge list" where
  "applyFilters d challenges searchTerm =
     (let activeDifficulty =
            (case active_difficulty d of
               None \<Rightarrow> ''all''
             | Some v \<Rightarrow> if v = [] then ''all'' else v);
          activeTags = active_tags d;
          searchTerm' =
            (if searchTerm = [] then trim (toLowerCase (search_input d)) else searchTerm)
      in case js_filter (challengeMatches searchTerm' activeDifficulty activeTags) challenges of
           Inl e \<Rightarrow> Inl e
         | Inr filteredChallenges \<Rightarrow>
             (case renderChallenges filteredChallenges of
                Inl e \<Rightarrow> Inl e
              | Inr _ \<Rightarrow> Inr filteredChallenges))"

text \<open>
  \<open>handleSearch(query)\<close> and \<open>handleFilter(e)\<close>; the latter first moves the \<open>active\<close>
  class between the buttons, and \<open>d\<close> is the page after that.
\<close>

definition handleSearch :: "dom \<Rightarrow> challenge list \<Rightarrow> string \<Rightarrow> error + challenge list" where
  "handleSearch d challenges query = applyFilters d challenges (trim (toLowerCase query))"

definition handleFilter :: "dom \<Rightarrow> challenge list \<Rightarrow> error + challenge list" where
  "handleFilter d challenges = applyFilters d challenges []"

text \<open>
  The filter as the specification words it. The FilterState is the one the code derives
  from the page: the search term is the lower-cased, trimmed text, the difficulty facet
  falls back to \<open>all\<close>, the tag facet is the set of active chips.
\<close>

record FilterState =
  search_term :: string
  difficulty_facet :: string
  tag_facet :: "string set"

definition tag_set :: "challenge \<Rightarrow> string set" where
  "tag_set c = (case tags c of Some (JArr xs) \<Rightarrow> {t. JStr t \<in> set xs} | _ \<Rightarrow> {})"

definition ci_substring :: "string \<Rightarrow> string \<Rightarrow> bool" where
  "ci_substring t s = sublist (toLowerCase t) (toLowerCase s)"

definition search_holds :: "FilterState \<Rightarrow> challenge \<Rightarrow> bool" where
  "search_holds st c =
     (search_term st = [] \<or> ci_substring (search_term st) (title c)
      \<or> ci_substring (search_term st) (description c)
      \<or> (\<exists>t \<in> tag_set c. ci_substring (search_term st) t))"

definition difficulty_holds :: "FilterState \<Rightarrow> challenge \<Rightarrow> bool" where
  "difficulty_holds st c = (difficulty_facet st = ''all'' \<or> difficulty_facet st = difficulty c)"

definition tags_hold :: "FilterState \<Rightarrow> challenge \<Rightarrow> bool" where
  "tags_hold st c = (tag_facet st = {} \<or> tag_set c \<inter> tag_facet st \<noteq> {})"

definition computeVisible_spec :: "challenge list \<Rightarrow> FilterState \<Rightarrow> challenge list" where
  "computeVisible_spec catalog st =
     filter (\<lambda>c. search_holds st c \<and> difficulty_holds st c \<and> tags_hold st c) catalog"

definition filterState_of :: "dom \<Rightarrow> string \<Rightarrow> FilterState" where
  "filterState_of d searchTerm =
     \<lparr>search_term = (if searchTerm = [] then trim (toLowerCase (search_input d)) else searchTerm),
      difficulty_facet =
        (case active_difficulty d of None \<Rightarrow> ''all'' | Some v \<Rightarrow> if v = [] then ''all'' else v),
      tag_facet = set (active_tags d)\<rparr>"

text \<open>An entry as the data model has it: \<open>tags\<close> is an array of strings.\<close>

definition tags_wellformed :: "challenge \<Rightarrow> bool" where
  "tags_wellformed c =
     (case tags c of Some (JArr xs) \<Rightarrow> list_all (\<lambda>x. case x of JStr _ \<Rightarrow> True | _ \<Rightarrow> False) xs
      | _ \<Rightarrow> False)"

section \<open>Numbers\<close>

text \<open>
  A JavaScript number is a double. Counts are integers well below \<open>2 ^ 53\<close> and are
  kept as \<open>nat\<close>; the results of \<open>/\<close> and \<open>*\<close> are the exact results rounded to the
  nearest double (53 significant bits, ties to even), written out on the rationals.
  \<open>binary_exponent x\<close> is the \<open>e\<close> with \<open>2 ^ e \<le> x < 2 ^ (e + 1)\<close> for positive \<open>x\<close>.
  Overflow and subnormal numbers are outside the model: a quotient of two counts and its
  hundredfold never get there.
\<close>

definition binary_exponent :: "rat \<Rightarrow> int" where
  "binary_exponent x =
     (if 1 \<le> x then bitlen \<lfloor>x\<rfloor> - 1 else - bitlen (\<lceil>1 / x\<rceil> - 1))"

definition round_ties_even :: "rat \<Rightarrow> int" where
  "round_ties_even x =
     (let n = \<lfloor>x\<rfloor>; r = x - of_int n
      in if r < 1 / 2 then n else if 1 / 2 < r then n + 1 else if even n then n else n + 1)"

definition fl :: "rat \<Rightarrow> rat" where
  "fl x =
     (if x = 0 then 0
      else (let e = binary_exponent \<bar>x\<bar> - 52
            in sgn x * of_int (round_ties_even (\<bar>x\<bar> / 2 powi e)) * 2 powi e))"

datatype number = Num rat | Infinity | NaN

text \<open>\<open>a / b\<close> for two counts: \<open>0 / 0\<close> is \<open>NaN\<close>, \<open>a / 0\<close> is \<open>Infinity\<close> for positive \<open>a\<close>.\<close>

definition js_divide :: "nat \<Rightarrow> nat \<Rightarrow> number" where
  "js_divide a b =
     (if b = 0 then (if a = 0 then NaN else Infinity)
      else Num (fl (of_nat a / of_nat b)))"

text \<open>\<open>x * 100\<close>.\<close>

definition times100 :: "number \<Rightarrow> number" where
  "times100 x = (case x of Num q \<Rightarrow> Num (fl (q * 100)) | Infinity \<Rightarrow> Infinity | NaN \<Rightarrow> NaN)"

text \<open>\<open>Math.round\<close>: the nearest integer, a tie going up.\<close>

definition Math_round :: "number \<Rightarrow> number" where
  "Math_round x =
     (case x of Num q \<Rightarrow> Num (of_int \<lfloor>q + 1 / 2\<rfloor>) | Infinity \<Rightarrow> Infinity | NaN \<Rightarrow> NaN)"

section \<open>Practice exercises and their evaluation\<close>

text \<open>
  A practice exercise, with the fields that \<open>evaluateExercise\<close> reads taken to be present
  and of their type, and the position that the editor reports for the cursor.
\<close>

record exercise =
  exercise_id :: int
  hint :: string
  initial_text :: string
  solution_check :: string
  target_line :: int
  target_column :: int
  expected_result :: string

record cursor =
  line :: int
  ch :: int

record verdict =
  success :: bool
  feedback :: string
  encouragement :: "string option"

text \<open>
  An integer inside a template literal is written in decimal, with a sign when negative.
  The digits are produced from the last one backwards.
\<close>

definition digit_char :: "nat \<Rightarrow> char" where
  "digit_char k = char_of (of_char CHR ''0'' + k)"

fun decimal_digits :: "nat \<Rightarrow> string \<Rightarrow> string" where
  "decimal_digits n acc =
     (if n < 10 then digit_char n # acc
      else decimal_digits (n div 10) (digit_char (n mod 10) # acc))"

definition toString_int :: "int \<Rightarrow> string" where
  "toString_int i =
     (if 0 \<le> i then decimal_digits (nat i) [] else CHR ''-'' # decimal_digits (nat (- i)) [])"

text \<open>The seven encouragements; each starts with an emoji, given here by its UTF-8 bytes.\<close>

definition encouragements :: "string list" where
  "encouragements =
     [[CHR 0xF0, CHR 0x9F, CHR 0x8E, CHR 0x89] @ '' Outstanding work!'',
      [CHR 0xE2, CHR 0x9A, CHR 0xA1] @ '' You're becoming a Vim master!'',
      [CHR 0xF0, CHR 0x9F, CHR 0x9A, CHR 0x80] @ '' Excellent progress!'',
      [CHR 0xF0, CHR 0x9F, CHR 0x92, CHR 0xAA] @ '' Strong Vim skills!'',
      [CHR 0xF0, CHR 0x9F, CHR 0x8E, CHR 0xAF] @ '' Perfect execution!'',
      [CHR 0xF0, CHR 0x9F, CHR 0x94, CHR 0xA5] @ '' You're on fire!'',
      [CHR 0xE2, CHR 0xAD, CHR 0x90] @ '' Stellar performance!'']"

text \<open>\<open>xs[i]\<close>: \<open>undefined\<close> (here \<open>None\<close>) outside the array.\<close>

definition js_index :: "'a list \<Rightarrow> nat \<Rightarrow> 'a option" where
  "js_index xs i = (if i < length xs then Some (xs ! i) else None)"

text \<open>
  \<open>evaluateExercise(userContent, cursor)\<close> on the current exercise. \<open>rnd\<close> is the value
  of \<open>Math.floor(Math.random() * encouragements.length)\<close>, the only thing in the method
  that is not a function of its inputs.
\<close>

definition evaluateExercise :: "exercise \<Rightarrow> string \<Rightarrow> cursor \<Rightarrow> nat \<Rightarrow> verdict" where
  "evaluateExercise exercise userContent cursor rnd =
     (let (success, feedback) =
        (if solution_check exercise = ''cursor_position'' then
           (let targetLine = target_line exercise - 1;
                targetCol = target_column exercise;
                success = (line cursor = targetLine \<and> \<bar>ch cursor - targetCol\<bar> \<le> 2)
            in (success,
                if success then
                  ''Perfect! You navigated to line '' @ toString_int (line cursor + 1)
                    @ '', column '' @ toString_int (ch cursor + 1) @ ''!''
                else
                  ''Try to reach line '' @ toString_int (target_line exercise)
                    @ '', column '' @ toString_int (target_column exercise)
                    @ ''. You're at '' @ toString_int (line cursor + 1)
                    @ '':'' @ toString_int (ch cursor + 1)))
         else if solution_check exercise = ''text_content'' then
           (let success = (trim userContent = trim (expected_result exercise))
            in (success,
                if success then ''Excellent! Your text matches the expected result!''
                else ''The text doesn't quite match. Check your edits and try again.''))
         else if solution_check exercise = ''word_navigation'' then
           (True, ''Great job practicing word navigation! Keep using w, b, and e to master word movements.'')
         else if solution_check exercise = ''visual_selection'' then
           (True, ''Well done! Visual mode is powerful for selecting and manipulating text.'')
         else if solution_check exercise = ''text_objects'' then
           (True, ''Excellent! Text objects make vim editing incredibly efficient.'')
         else
           (True, ''Exercise completed! Keep practicing to master these skills.''))
      in \<lparr>success = success, feedback = feedback,
          encouragement = (if success then js_index encouragements rnd else Some [])\<rparr>)"

section \<open>The application object\<close>

text \<open>
  The fields of \<open>NeovimMastery\<close> that progress tracking and exercise statistics use, and
  the two \<open>localStorage\<close> items. A \<open>Set\<close> is the list of its elements in insertion
  order; \<open>editor\<close> and \<open>currentExercise\<close> are \<open>None\<close> for \<open>null\<close>. In \<open>exerciseStats\<close> the
  field \<open>success\<close> is called \<open>stats_success\<close>, the name \<open>success\<close> being taken by the
  verdict.
\<close>

record exerciseStats =
  completed :: nat
  total :: nat
  stats_success :: nat

record editor =
  editor_value :: string
  editor_cursor :: cursor

record app =
  challenges :: "challenge list"
  filteredChallenges :: "challenge list"
  completedChallenges :: "json list"
  editor :: "editor option"
  currentExercise :: "exercise option"
  exerciseStats :: exerciseStats
  progress_item :: "string option"
  exercise_item :: "string option"

text \<open>
  The object as the constructor and \<open>loadChallengeData\<close> leave it: the latter stores the
  catalog and a copy of it as \<open>filteredChallenges\<close>.
\<close>

definition constructed :: "challenge list \<Rightarrow> string option \<Rightarrow> string option \<Rightarrow> app" where
  "constructed cs p e =
     \<lparr>challenges = cs, filteredChallenges = cs, completedChallenges = [], editor = None,
      currentExercise = None,
      exerciseStats = \<lparr>completed = 0, total = 0, stats_success = 0\<rparr>,
      progress_item = p, exercise_item = e\<rparr>"

subsection \<open>Sets\<close>

text \<open>
  \<open>Set\<close> compares with SameValueZero: primitive values by value, arrays and objects by
  identity, and two values that come out of \<open>JSON.parse\<close> as arrays or objects are never
  the same object. \<open>delete\<close> takes out the element that is the same value as its
  argument; a \<open>Set\<close> holds at most one.
\<close>

definition primitive :: "json \<Rightarrow> bool" where
  "primitive v = (case v of JArr _ \<Rightarrow> False | JObj _ \<Rightarrow> False | _ \<Rightarrow> True)"

definition sameValueZero :: "json \<Rightarrow> json \<Rightarrow> bool" where
  "sameValueZero x y = (primitive x \<and> x = y)"

definition Set_has :: "json list \<Rightarrow> json \<Rightarrow> bool" where
  "Set_has s v = list_ex (sameValueZero v) s"

definition Set_add :: "json list \<Rightarrow> json \<Rightarrow> json list" where
  "Set_add s v = (if Set_has s v then s else s @ [v])"

definition Set_delete :: "json list \<Rightarrow> json \<Rightarrow> json list" where
  "Set_delete s v = filter (\<lambda>y. \<not> sameValueZero v y) s"

definition new_Set :: "json list \<Rightarrow> json list" where
  "new_Set xs = foldl Set_add [] xs"

subsection \<open>Saving and restoring progress\<close>

text \<open>
  \<open>JSON.stringify\<close> and \<open>JSON.parse\<close> belong to the platform; the functions below take
  them as the parameters \<open>stringify\<close> and \<open>parse\<close> (\<open>None\<close>: a SyntaxError). \<open>now\<close> is
  \<open>new Date().toISOString()\<close>. \<open>localStorage.setItem\<close> is taken to succeed.
\<close>

definition saveProgress :: "(json \<Rightarrow> string) \<Rightarrow> string \<Rightarrow> app \<Rightarrow> app" where
  "saveProgress stringify now a =
     (let progress = JObj [(''completedChallenges'', JArr (completedChallenges a)),
                           (''lastUpdated'', JStr now)]
      in a\<lparr>progress_item := Some (stringify progress)\<rparr>)"

text \<open>\<open>v.key\<close>: a TypeError on \<open>null\<close>, \<open>undefined\<close> (here \<open>None\<close>) where nothing is stored.\<close>

definition get_property :: "json \<Rightarrow> string \<Rightarrow> error + json option" where
  "get_property v key =
     (case v of JNull \<Rightarrow> Inl TypeError | JObj kvs \<Rightarrow> Inr (map_of kvs key) | _ \<Rightarrow> Inr None)"

definition truthy :: "json option \<Rightarrow> bool" where
  "truthy v =
     (case v of
        None \<Rightarrow> False
      | Some JNull \<Rightarrow> False
      | Some (JBool b) \<Rightarrow> b
      | Some (JNum x) \<Rightarrow> x \<noteq> 0
      | Some (JStr s) \<Rightarrow> s \<noteq> []
      | Some _ \<Rightarrow> True)"

text \<open>\<open>v || d\<close>.\<close>

definition or_else :: "json option \<Rightarrow> json \<Rightarrow> json" where
  "or_else v d = (case v of None \<Rightarrow> d | Some x \<Rightarrow> if truthy v then x else d)"

text \<open>\<open>new Set(v)\<close>: \<open>v\<close> has to be iterable, an array or a string.\<close>

definition new_Set_of :: "json \<Rightarrow> error + json list" where
  "new_Set_of v =
     (case v of
        JArr xs \<Rightarrow> Inr (new_Set xs)
      | JStr s \<Rightarrow> Inr (new_Set (map (\<lambda>c. JStr [c]) s))
      | _ \<Rightarrow> Inl TypeError)"

text \<open>The body of the \<open>try\<close> block of \<open>loadProgress\<close>, then the method with its \<open>catch\<close>.\<close>

definition loadProgress_try :: "(string \<Rightarrow> json option) \<Rightarrow> app \<Rightarrow> error + app" where
  "loadProgress_try parse a =
     (case progress_item a of
        None \<Rightarrow> Inr a
      | Some saved \<Rightarrow>
          if saved = [] then Inr a
          else (case parse saved of
                  None \<Rightarrow> Inl SyntaxError
                | Some progress \<Rightarrow>
                    (case get_property progress ''completedChallenges'' of
                       Inl e \<Rightarrow> Inl e
                     | Inr v \<Rightarrow>
                         (case new_Set_of (or_else v (JArr [])) of
                            Inl e \<Rightarrow> Inl e
                          | Inr s \<Rightarrow> Inr (a\<lparr>completedChallenges := s\<rparr>)))))"

definition loadProgress :: "(string \<Rightarrow> json option) \<Rightarrow> app \<Rightarrow> app" where
  "loadProgress parse a = (case loadProgress_try parse a of Inl e \<Rightarrow> a | Inr a' \<Rightarrow> a')"

subsection \<open>Toggling completion\<close>

definition closeModal :: "app \<Rightarrow> app" where
  "closeModal a = a\<lparr>editor := None\<rparr>"

text \<open>
  \<open>toggleChallengeCompletion\<close>; \<open>challengeId\<close> is the integer that \<open>parseInt\<close> reads from
  the button (the \<open>NaN\<close> it returns for a button without a number is not modelled; a
  \<open>Set\<close> treats it like any other number). After the set is changed and saved,
  \<open>updateStats\<close> writes three numbers to the page, \<open>renderChallenges\<close> builds the cards of
  \<open>filteredChallenges\<close> anew, which throws on a challenge whose \<open>tags\<close> is not an array, and
  \<open>closeModal\<close> drops the editor. The result is the object as the method leaves it,
  together with the exception that left it, if any: an exception of \<open>renderChallenges\<close>
  leaves the set changed and saved and the modal open.
\<close>

definition toggleChallengeCompletion ::
  "(json \<Rightarrow> string) \<Rightarrow> string \<Rightarrow> int \<Rightarrow> app \<Rightarrow> app \<times> error option" where
  "toggleChallengeCompletion stringify now challengeId a =
     (let a1 = (if Set_has (completedChallenges a) (JNum (of_int challengeId))
                then a\<lparr>completedChallenges :=
                         Set_delete (completedChallenges a) (JNum (of_int challengeId))\<rparr>
                else a\<lparr>completedChallenges :=
                         Set_add (completedChallenges a) (JNum (of_int challengeId))\<rparr>);
          a2 = saveProgress stringify now a1
      in case renderChallenges (filteredChallenges a2) of
           Inl e \<Rightarrow> (a2, Some e)
         | Inr _ \<Rightarrow> (closeModal a2, None))"

subsection \<open>Statistics and export\<close>

text \<open>The width of the progress bar in \<open>updateStats\<close>, in percent.\<close>

definition updateStats :: "app \<Rightarrow> number" where
  "updateStats a =
     (let completed = length (completedChallenges a);
          total = length (challenges a)
      in if total > 0 then times100 (js_divide completed total) else Num 0)"

record export =
  export_completedChallenges :: "json list"
  totalChallenges :: nat
  completionPercentage :: number
  exportDate :: string
  platform :: string

text \<open>The object that \<open>exportProgress\<close> builds and offers for download.\<close>

definition exportProgress :: "string \<Rightarrow> app \<Rightarrow> export" where
  "exportProgress now a =
     \<lparr>export_completedChallenges = completedChallenges a,
      totalChallenges = length (challenges a),
      completionPercentage =
        Math_round (times100 (js_divide (length (completedChallenges a)) (length (challenges a)))),
      exportDate = now,
      platform = ''Neovim Mastery''\<rparr>"

subsection \<open>Submitting an exercise\<close>

definition saveExerciseProgress :: "(json \<Rightarrow> string) \<Rightarrow> string \<Rightarrow> app \<Rightarrow> app" where
  "saveExerciseProgress stringify now a =
     (let progress =
            JObj [(''exerciseStats'',
                   JObj [(''completed'', JNum (of_nat (completed (exerciseStats a)))),
                         (''total'', JNum (of_nat (total (exerciseStats a)))),
                         (''success'', JNum (of_nat (stats_success (exerciseStats a))))]),
                  (''lastUpdated'', JStr now)]
      in a\<lparr>exercise_item := Some (stringify progress)\<rparr>)"

text \<open>
  \<open>submitExercise\<close>: nothing happens without an editor and a current exercise; otherwise
  the verdict is computed and both counters are updated and saved.
\<close>

definition submitExercise :: "(json \<Rightarrow> string) \<Rightarrow> string \<Rightarrow> nat \<Rightarrow> app \<Rightarrow> app" where
  "submitExercise stringify now rnd a =
     (case (editor a, currentExercise a) of
        (Some ed, Some ex) \<Rightarrow>
          (let result = evaluateExercise ex (editor_value ed) (editor_cursor ed) rnd;
               stats = exerciseStats a;
               stats1 = (if success result
                         then stats\<lparr>stats_success := stats_success stats + 1\<rparr> else stats);
               stats2 = stats1\<lparr>completed := completed stats1 + 1\<rparr>
           in saveExerciseProgress stringify now (a\<lparr>exerciseStats := stats2\<rparr>))
      | _ \<Rightarrow> a)"

text \<open>The rate that \<open>updateExerciseStats\<close> shows.\<close>

definition updateExerciseStats :: "app \<Rightarrow> number" where
  "updateExerciseStats a =
     (if completed (exerciseStats a) > 0
      then Math_round (times100 (js_divide (stats_success (exerciseStats a)) (completed (exerciseStats a))))
      else Num 0)"

text \<open>A run of submissions: the editor content and the random draw of each.\<close>

fun submissions :: "(json \<Rightarrow> string) \<Rightarrow> string \<Rightarrow> (editor \<times> nat) list \<Rightarrow> app \<Rightarrow> app" where
  "submissions stringify now [] a = a"
| "submissions stringify now ((ed, rnd) # rest) a =
     submissions stringify now rest (submitExercise stringify now rnd (a\<lparr>editor := Some ed\<rparr>))"

section \<open>The search of the cheat sheet\<close>

text \<open>
  The second search of \<open>script.js\<close>, \<open>matchesSearch\<close> of the cheat sheet component,
  looks through the same kind of fields. Its part on the item itself (lines 1795 to
  1799) reads \<open>tags\<close> and \<open>keywords\<close> with \<open>?.\<close>, which yields \<open>undefined\<close> instead of
  throwing when the field is absent or \<open>null\<close>.
\<close>

record item =
  item_title :: string
  item_description :: string
  item_tags :: "json option"
  item_keywords :: "json option"

definition optional_some :: "json option \<Rightarrow> (json \<Rightarrow> error + bool) \<Rightarrow> error + bool" where
  "optional_some v f =
     (case v of None \<Rightarrow> Inr False | Some JNull \<Rightarrow> Inr False | _ \<Rightarrow> call_some v f)"

definition itemMatches :: "string \<Rightarrow> item \<Rightarrow> error + bool" where
  "itemMatches query i =
     (let lowerIncludes =
            (\<lambda>x. case call_toLowerCase x of
                    Inl e \<Rightarrow> Inl e
                  | Inr s \<Rightarrow> Inr (str_includes s query))
      in js_or (str_includes (toLowerCase (item_title i)) query)
           (js_or (str_includes (toLowerCase (item_description i)) query)
              (case optional_some (item_tags i) lowerIncludes of
                 Inl e \<Rightarrow> Inl e
               | Inr b \<Rightarrow> js_or b (optional_some (item_keywords i) lowerIncludes))))"

section \<open>Sample data\<close>

definition motions :: challenge where
  "motions = \<lparr>challenge_id = 1, title = ''Basic Motions'', description = ''Move with hjkl'',
     tags = Some (JArr [JStr ''motion'', JStr ''basics'']), difficulty = ''Beginner''\<rparr>"

definition text_objects :: challenge where
  "text_objects = \<lparr>challenge_id = 2, title = ''Text Objects'', description = ''Select inner words'',
     tags = Some (JArr [JStr ''editing'']), difficulty = ''Advanced''\<rparr>"

definition macros :: challenge where
  "macros = \<lparr>challenge_id = 3, title = ''Macros'', description = ''Record and replay'',
     tags = Some (JArr [JStr ''editing'', JStr ''Motion'']), difficulty = ''Expert''\<rparr>"

definition untagged :: challenge where
  "untagged = \<lparr>challenge_id = 4, title = ''Registers'', description = ''Yank and put'',
     tags = None, difficulty = ''Beginner''\<rparr>"

definition sample_page :: dom where
  "sample_page = \<lparr>search_input = ''  MOTION '', active_difficulty = None,
     active_tags = [''editing'', ''motion'']\<rparr>"

definition line_six :: exercise where
  "line_six = \<lparr>exercise_id = 1, hint = ''Use 5j and w'', initial_text = ''function main() {'',
     solution_check = ''cursor_position'', target_line = 6, target_column = 10,
     expected_result = []\<rparr>"

definition greeting :: exercise where
  "greeting = \<lparr>exercise_id = 2, hint = ''Use dd'', initial_text = ''hello brave world'',
     solution_check = ''text_content'', target_line = 0, target_column = 0,
     expected_result = ''  hello world  ''\<rparr>"

text \<open>
  A stored progress item, the object it stands for, and the platform's two functions as
  far as these two texts go.
\<close>

definition saved_text :: string where
  \<open>saved_text = ''{"completedChallenges":[1,3],"lastUpdated":"2024-05-01T10:00:00.000Z"}''\<close>

definition saved_object :: json where
  "saved_object = JObj [(''completedChallenges'', JArr [JNum 1, JNum 3]),
                        (''lastUpdated'', JStr ''2024-05-01T10:00:00.000Z'')]"

definition other_text :: string where
  \<open>other_text = ''{"lastUpdated":"2024-05-01T10:00:00.000Z"}''\<close>

definition other_object :: json where
  "other_object = JObj [(''lastUpdated'', JStr ''2024-05-01T10:00:00.000Z'')]"

definition sample_stringify :: "json \<Rightarrow> string" where
  "sample_stringify v =
     (if v = saved_object then saved_text else if v = other_object then other_text else ''null'')"

definition sample_parse :: "string \<Rightarrow> json option" where
  "sample_parse s =
     (if s = saved_text then Some saved_object
      else if s = other_text then Some other_object
      else if s = ''null'' then Some JNull
      else None)"

definition sample_app :: app where
  "sample_app = (constructed [motions, text_objects, macros] None None)
     \<lparr>completedChallenges := [JNum 1, JNum 3]\<rparr>"

text \<open>A practice session on \<open>greeting\<close>, an editor content that passes and one that fails.\<close>

definition practising :: app where
  "practising = (constructed [motions] None None)\<lparr>currentExercise := Some greeting\<rparr>"

definition right_answer :: editor where
  "right_answer = \<lparr>editor_value = ''hello world'', editor_cursor = \<lparr>line = 0, ch = 11\<rparr>\<rparr>"

definition wrong_answer :: editor where
  "wrong_answer = \<lparr>editor_value = ''hello brave world'', editor_cursor = \<lparr>line = 0, ch = 0\<rparr>\<rparr>"

section \<open>Properties of the filter engine\<close>

lemma str_includes_sublist: "str_includes s t \<longleftrightarrow> sublist t s"
  by (induction s) (auto simp: sublist_Cons_right)

lemma toLowerCase_char_idem: "toLowerCase_char (toLowerCase_char c) = toLowerCase_char c"
  by (simp add: toLowerCase_char_def Let_def)

lemma set_trim_subset: "set (trim s) \<subseteq> set s"
  by (auto simp: trim_def dest!: set_dropWhileD)

lemma toLowerCase_fixed: "(\<forall>c\<in>set s. toLowerCase_char c = c) \<Longrightarrow> toLowerCase s = s"
  by (simp add: toLowerCase_def map_idI)

lemma toLowerCase_trim: "toLowerCase (trim (toLowerCase s)) = trim (toLowerCase s)"
proof (rule toLowerCase_fixed, rule ballI)
  fix c assume "c \<in> set (trim (toLowerCase s))"
  then have "c \<in> set (toLowerCase s)" using set_trim_subset by blast
  then show "toLowerCase_char c = c"
    by (auto simp: toLowerCase_def toLowerCase_char_idem)
qed

lemma js_some_total:
  "(\<forall>x\<in>set xs. f x = Inr (p x)) \<Longrightarrow> js_some f xs = Inr (\<exists>x\<in>set xs. p x)"
  by (induction xs) auto

lemma js_filter_total:
  "(\<forall>x\<in>set xs. f x = Inr (p x)) \<Longrightarrow> js_filter f xs = Inr (filter p xs)"
  by (induction xs) auto

lemma is_JStr_D: "(case x of JStr _ \<Rightarrow> True | _ \<Rightarrow> False) \<Longrightarrow> \<exists>u. x = JStr u"
  by (cases x) auto

lemma tags_wellformed_D:
  assumes "tags_wellformed c"
  obtains xs where "tags c = Some (JArr xs)" "\<forall>x\<in>set xs. \<exists>u. x = JStr u"
proof -
  from assms obtain xs where 1: "tags c = Some (JArr xs)"
      and 2: "list_all (\<lambda>x. case x of JStr _ \<Rightarrow> True | _ \<Rightarrow> False) xs"
    by (auto simp: tags_wellformed_def split: option.splits json.splits)
  from 2 have "\<forall>x\<in>set xs. \<exists>u. x = JStr u"
    by (auto simp: list_all_iff dest: is_JStr_D)
  with 1 show thesis by (rule that)
qed

lemma search_in_tags:
  assumes "tags_wellformed c"
  shows "call_some (tags c)
           (\<lambda>tag. case call_toLowerCase tag of Inl e \<Rightarrow> Inl e | Inr s \<Rightarrow> Inr (str_includes s t))
         = Inr (\<exists>u\<in>tag_set c. sublist t (toLowerCase u))"
proof -
  from assms obtain xs where xs: "tags c = Some (JArr xs)" "\<forall>x\<in>set xs. \<exists>u. x = JStr u"
    by (rule tags_wellformed_D)
  have "js_some (\<lambda>tag. case call_toLowerCase tag of Inl e \<Rightarrow> Inl e | Inr s \<Rightarrow> Inr (str_includes s t)) xs
        = Inr (\<exists>x\<in>set xs. \<exists>u. x = JStr u \<and> sublist t (toLowerCase u))"
    by (rule js_some_total) (use xs(2) in \<open>auto simp: call_toLowerCase_def str_includes_sublist\<close>)
  moreover have "(\<exists>x\<in>set xs. \<exists>u. x = JStr u \<and> sublist t (toLowerCase u))
        \<longleftrightarrow> (\<exists>u\<in>tag_set c. sublist t (toLowerCase u))"
    using xs(1) by (auto simp: tag_set_def)
  ultimately show ?thesis by (simp add: call_some_def xs(1))
qed

lemma facet_in_tags:
  assumes "tags_wellformed c"
  shows "js_some (\<lambda>tag. call_includes (tags c) tag) ts = Inr (tag_set c \<inter> set ts \<noteq> {})"
proof -
  from assms obtain xs where xs: "tags c = Some (JArr xs)"
    by (rule tags_wellformed_D)
  have "js_some (\<lambda>tag. call_includes (tags c) tag) ts = Inr (\<exists>t\<in>set ts. JStr t \<in> set xs)"
    by (rule js_some_total) (simp add: call_includes_def xs)
  moreover have "(\<exists>t\<in>set ts. JStr t \<in> set xs) \<longleftrightarrow> tag_set c \<inter> set ts \<noteq> {}"
    by (auto simp: tag_set_def xs)
  ultimately show ?thesis by simp
qed

lemma challengeMatches_wellformed:
  assumes wf: "tags_wellformed c" and low: "toLowerCase t = t"
  shows "challengeMatches t dv ts c =
     Inr (search_holds \<lparr>search_term = t, difficulty_facet = dv, tag_facet = set ts\<rparr> c
        \<and> difficulty_holds \<lparr>search_term = t, difficulty_facet = dv, tag_facet = set ts\<rparr> c
        \<and> tags_hold \<lparr>search_term = t, difficulty_facet = dv, tag_facet = set ts\<rparr> c)"
  unfolding challengeMatches_def search_in_tags[OF wf] facet_in_tags[OF wf]
  by (auto simp: js_or_def Let_def search_holds_def difficulty_holds_def tags_hold_def
        ci_substring_def low str_includes_sublist)

lemma renderChallenges_wellformed:
  "\<forall>c\<in>set cs. tags_wellformed c \<Longrightarrow> renderChallenges cs = Inr ()"
proof (induction cs)
  case Nil
  then show ?case by simp
next
  case (Cons c cs)
  then have "tags_wellformed c" by simp
  then obtain xs where "tags c = Some (JArr xs)" by (rule tags_wellformed_D)
  then have "createChallengeCard c = Inr ()" by (simp add: createChallengeCard_def)
  with Cons show ?case by simp
qed

lemma applyFilters_wellformed:
  assumes wf: "\<forall>c\<in>set catalog. tags_wellformed c" and low: "toLowerCase t = t"
  shows "applyFilters d catalog t = Inr (computeVisible_spec catalog (filterState_of d t))"
proof -
  let ?t = "if t = [] then trim (toLowerCase (search_input d)) else t"
  have low': "toLowerCase ?t = ?t"
    using low by (simp add: toLowerCase_trim)
  let ?dv = "case active_difficulty d of None \<Rightarrow> ''all'' | Some v \<Rightarrow> if v = [] then ''all'' else v"
  let ?st = "\<lparr>search_term = ?t, difficulty_facet = ?dv, tag_facet = set (active_tags d)\<rparr>"
  have "js_filter (challengeMatches ?t ?dv (active_tags d)) catalog
          = Inr (filter (\<lambda>c. search_holds ?st c \<and> difficulty_holds ?st c \<and> tags_hold ?st c) catalog)"
    by (rule js_filter_total) (use wf in \<open>simp add: challengeMatches_wellformed[OF _ low']\<close>)
  moreover have "renderChallenges (filter P catalog) = Inr ()" for P
    by (rule renderChallenges_wellformed) (use wf in simp)
  ultimately show ?thesis
    by (simp add: applyFilters_def Let_def computeVisible_spec_def filterState_of_def)
qed

text \<open>
  C1. Whatever the catalog (its entries carrying an array of strings as \<open>tags\<close>) and
  whatever the page holds, a search and a facet click both leave in
  \<open>filteredChallenges\<close> the entries of the catalog, in catalog order, for which the three
  predicates hold: the search term is empty or a case-insensitive substring of the title,
  of the description or of a tag; the difficulty facet is \<open>all\<close> or the entry's
  difficulty; the tag facet is empty or shares a tag with the entry.
\<close>

theorem computeVisible_is_filter:
  assumes "\<forall>c\<in>set catalog. tags_wellformed c"
  shows "handleSearch d catalog query
           = Inr (computeVisible_spec catalog (filterState_of d (trim (toLowerCase query))))
       \<and> handleFilter d catalog = Inr (computeVisible_spec catalog (filterState_of d []))
       \<and> subseq (computeVisible_spec catalog (filterState_of d (trim (toLowerCase query)))) catalog
       \<and> subseq (computeVisible_spec catalog (filterState_of d [])) catalog"
proof -
  have "handleSearch d catalog query
          = Inr (computeVisible_spec catalog (filterState_of d (trim (toLowerCase query))))"
    unfolding handleSearch_def
    by (rule applyFilters_wellformed[OF assms]) (rule toLowerCase_trim)
  moreover have "handleFilter d catalog = Inr (computeVisible_spec catalog (filterState_of d []))"
    unfolding handleFilter_def
    by (rule applyFilters_wellformed[OF assms]) (simp add: toLowerCase_def)
  moreover have "subseq (computeVisible_spec catalog st) catalog" for st
    by (simp add: computeVisible_spec_def)
  ultimately show ?thesis by simp
qed

lemma sample_catalog_wellformed:
  "\<forall>c\<in>set [motions, text_objects, macros]. tags_wellformed c"
  by (simp add: tags_wellformed_def motions_def text_objects_def macros_def)

lemma sample_filter_result:
  "handleFilter sample_page [motions, text_objects, macros] = Inr [motions, macros]"
  by code_simp

theorem computeVisible_is_filter_witness:
  "tags_wellformed motions \<and> tags_wellformed text_objects \<and> tags_wellformed macros
   \<and> computeVisible_spec [motions, text_objects, macros] (filterState_of sample_page [])
       = [motions, macros]
   \<and> handleSearch sample_page [motions, text_objects, macros] ''Objects''
       = Inr (computeVisible_spec [motions, text_objects, macros]
                (filterState_of sample_page (trim (toLowerCase ''Objects''))))"
  using computeVisible_is_filter[OF sample_catalog_wellformed, of sample_page "''Objects''"]
    sample_catalog_wellformed sample_filter_result
  by simp

text \<open>
  C3. An entry without \<open>tags\<close> is not treated as an entry with no tags. As soon as a
  tag chip is active, or the search term is found neither in the title nor in the
  description, the filter callback calls a method on \<open>undefined\<close> and the pass ends in a
  TypeError. With no chip active and an empty search box the entry passes the filter,
  and the rendering of its card throws the same error. Only when the difficulty facet
  hides the entry does the method return.
\<close>

theorem applyFilters_missing_tags_TypeError:
  "handleFilter \<lparr>search_input = [], active_difficulty = None, active_tags = [''motion'']\<rparr>
     [motions, untagged] = Inl TypeError
   \<and> handleSearch \<lparr>search_input = ''macro'', active_difficulty = None, active_tags = []\<rparr>
     [motions, untagged] ''macro'' = Inl TypeError
   \<and> js_filter (challengeMatches [] ''all'' []) [motions, untagged] = Inr [motions, untagged]
   \<and> handleFilter \<lparr>search_input = [], active_difficulty = None, active_tags = []\<rparr>
     [motions, untagged] = Inl TypeError
   \<and> handleFilter \<lparr>search_input = [], active_difficulty = Some ''Expert'', active_tags = []\<rparr>
     [macros, untagged] = Inr [macros]"
  by code_simp

lemma renderChallenges_untagged:
  "c \<in> set cs \<Longrightarrow> tags c = None \<Longrightarrow> \<exists>e. renderChallenges cs = Inl e"
  by (induction cs) (auto simp: createChallengeCard_def split: sum.splits)

lemma untagged_never_shown:
  assumes "tags c = None" "applyFilters d catalog t = Inr xs"
  shows "c \<notin> set xs"
proof
  assume "c \<in> set xs"
  with assms(1) obtain e where "renderChallenges xs = Inl e"
    using renderChallenges_untagged by blast
  with assms(2) show False
    by (auto simp: applyFilters_def Let_def split: sum.splits)
qed

lemma itemMatches_missing_tags:
  assumes "item_tags i = None" "item_keywords i = None"
  shows "itemMatches query i
           = Inr (str_includes (toLowerCase (item_title i)) query
                  \<or> str_includes (toLowerCase (item_description i)) query)"
  using assms by (simp add: itemMatches_def optional_some_def js_or_def Let_def)

section \<open>Properties of the session evaluator\<close>

lemma evaluate_cursor_position:
  assumes "solution_check ex = ''cursor_position''"
  shows "success (evaluateExercise ex userContent cur rnd)
           = (line cur = target_line ex - 1 \<and> \<bar>ch cur - target_column ex\<bar> \<le> 2)"
  using assms by (simp add: evaluateExercise_def Let_def)

lemma evaluate_text_content:
  assumes "solution_check ex = ''text_content''"
  shows "success (evaluateExercise ex userContent cur rnd) = (trim userContent = trim (expected_result ex))"
  using assms by (simp add: evaluateExercise_def Let_def)

lemma trim_hello_world: "trim ''  hello world  '' = ''hello world''" "trim ''hello world'' = ''hello world''"
  by code_simp+

text \<open>
  C7. For an exercise checked by \<open>cursor_position\<close> the verdict is a success exactly when
  the cursor is on line \<open>target_line - 1\<close> (counted from 0) and its column is within 2 of
  \<open>target_column\<close>. With target line 6 and target column 10, the cursor at line 5, column
  11 succeeds and the cursor at line 5, column 20 fails.
\<close>

theorem cursor_position_verdict:
  assumes "solution_check ex = ''cursor_position''"
  shows "success (evaluateExercise ex userContent cur rnd)
           = (line cur = target_line ex - 1 \<and> \<bar>ch cur - target_column ex\<bar> \<le> 2)
       \<and> (target_line ex = 6 \<and> target_column ex = 10 \<longrightarrow>
            success (evaluateExercise ex userContent \<lparr>line = 5, ch = 11\<rparr> rnd)
            \<and> \<not> success (evaluateExercise ex userContent \<lparr>line = 5, ch = 20\<rparr> rnd))"
  by (simp add: evaluate_cursor_position[OF assms])

theorem cursor_position_verdict_witness:
  "solution_check line_six = ''cursor_position''
   \<and> success (evaluateExercise line_six ''x'' \<lparr>line = 5, ch = 11\<rparr> 3)
   \<and> \<not> success (evaluateExercise line_six ''x'' \<lparr>line = 5, ch = 20\<rparr> 3)
   \<and> \<not> success (evaluateExercise line_six ''x'' \<lparr>line = 6, ch = 10\<rparr> 3)"
proof -
  have sc: "solution_check line_six = ''cursor_position''"
    by (simp add: line_six_def)
  have tl: "target_line line_six = 6" "target_column line_six = 10"
    by (simp_all add: line_six_def)
  from cursor_position_verdict[OF sc, of "''x''" "\<lparr>line = 6, ch = 10\<rparr>" 3]
    cursor_position_verdict[OF sc, of "''x''" "\<lparr>line = 5, ch = 11\<rparr>" 3]
  show ?thesis using sc tl by simp
qed

text \<open>
  C8. For an exercise checked by \<open>text_content\<close> the verdict is a success exactly when
  the trimmed text of the editor equals the trimmed \<open>expected_result\<close>. With the expected
  result \<open>"  hello world  "\<close> the text \<open>"hello world"\<close> succeeds.
\<close>

theorem text_content_verdict:
  assumes "solution_check ex = ''text_content''"
  shows "success (evaluateExercise ex userContent cur rnd) = (trim userContent = trim (expected_result ex))
       \<and> (expected_result ex = ''  hello world  '' \<longrightarrow>
            success (evaluateExercise ex ''hello world'' cur rnd))"
  by (simp add: evaluate_text_content[OF assms] trim_hello_world)

theorem text_content_verdict_witness:
  "solution_check greeting = ''text_content''
   \<and> success (evaluateExercise greeting ''hello world'' \<lparr>line = 0, ch = 0\<rparr> 0)
   \<and> success (evaluateExercise greeting '' hello world'' \<lparr>line = 0, ch = 0\<rparr> 0)
        = (trim '' hello world'' = trim (expected_result greeting))"
proof -
  have sc: "solution_check greeting = ''text_content''"
    by (simp add: greeting_def)
  have er: "expected_result greeting = ''  hello world  ''"
    by (simp add: greeting_def)
  from text_content_verdict[OF sc, of "'' hello world''" "\<lparr>line = 0, ch = 0\<rparr>" 0]
  show ?thesis using sc er by simp
qed

lemma encouragements_distinct: "distinct encouragements" "length encouragements = 7"
  by (simp_all add: encouragements_def)

lemma js_index_encouragements_inj:
  assumes "i < 7" "j < 7" "i \<noteq> j"
  shows "js_index encouragements i \<noteq> js_index encouragements j"
  using assms encouragements_distinct by (simp add: js_index_def nth_eq_iff_index_eq)

lemma evaluate_success_feedback_independent:
  assumes "solution_check ex1 = solution_check ex2" "target_line ex1 = target_line ex2"
    "target_column ex1 = target_column ex2" "expected_result ex1 = expected_result ex2"
  shows "success (evaluateExercise ex1 userContent cur rnd1) = success (evaluateExercise ex2 userContent cur rnd2)"
    "feedback (evaluateExercise ex1 userContent cur rnd1) = feedback (evaluateExercise ex2 userContent cur rnd2)"
  using assms by (simp_all add: evaluateExercise_def Let_def)

lemma evaluate_encouragement:
  "encouragement (evaluateExercise ex userContent cur rnd)
     = (if success (evaluateExercise ex userContent cur rnd) then js_index encouragements rnd else Some [])"
  by (simp add: evaluateExercise_def Let_def)

text \<open>
  C10. Two runs of \<open>evaluateExercise\<close> on the same text and cursor, for exercises that
  agree on \<open>solution_check\<close>, the target fields and the expected result, return the same
  success flag and the same feedback whatever the random draws are; on success the
  encouragements of two runs differ as soon as the two draws differ.
\<close>

theorem verdict_deterministic:
  assumes "solution_check ex1 = solution_check ex2" "target_line ex1 = target_line ex2"
    "target_column ex1 = target_column ex2" "expected_result ex1 = expected_result ex2"
  shows "success (evaluateExercise ex1 userContent cur rnd1) = success (evaluateExercise ex2 userContent cur rnd2)
       \<and> feedback (evaluateExercise ex1 userContent cur rnd1) = feedback (evaluateExercise ex2 userContent cur rnd2)
       \<and> (success (evaluateExercise ex1 userContent cur rnd1) \<and> rnd1 < 7 \<and> rnd2 < 7 \<and> rnd1 \<noteq> rnd2 \<longrightarrow>
            encouragement (evaluateExercise ex1 userContent cur rnd1)
              \<noteq> encouragement (evaluateExercise ex2 userContent cur rnd2))"
proof -
  note same = evaluate_success_feedback_independent[OF assms, of userContent cur rnd1 rnd2]
  have "encouragement (evaluateExercise ex1 userContent cur rnd1)
          \<noteq> encouragement (evaluateExercise ex2 userContent cur rnd2)"
    if "success (evaluateExercise ex1 userContent cur rnd1)" "rnd1 < 7" "rnd2 < 7" "rnd1 \<noteq> rnd2"
    using that same(1) js_index_encouragements_inj[of rnd1 rnd2]
    by (simp add: evaluate_encouragement)
  with same show ?thesis by blast
qed

theorem verdict_deterministic_witness:
  "success (evaluateExercise line_six ''x'' \<lparr>line = 5, ch = 11\<rparr> 0)
     = success (evaluateExercise (line_six\<lparr>hint := ''another hint''\<rparr>) ''x'' \<lparr>line = 5, ch = 11\<rparr> 4)
   \<and> feedback (evaluateExercise line_six ''x'' \<lparr>line = 5, ch = 11\<rparr> 0)
     = feedback (evaluateExercise (line_six\<lparr>hint := ''another hint''\<rparr>) ''x'' \<lparr>line = 5, ch = 11\<rparr> 4)
   \<and> encouragement (evaluateExercise line_six ''x'' \<lparr>line = 5, ch = 11\<rparr> 0)
     \<noteq> encouragement (evaluateExercise (line_six\<lparr>hint := ''another hint''\<rparr>) ''x'' \<lparr>line = 5, ch = 11\<rparr> 4)"
proof -
  have ok: "success (evaluateExercise line_six ''x'' \<lparr>line = 5, ch = 11\<rparr> 0)"
    by (simp add: evaluateExercise_def line_six_def Let_def)
  from verdict_deterministic[of line_six "line_six\<lparr>hint := ''another hint''\<rparr>"
      "''x''" "\<lparr>line = 5, ch = 11\<rparr>" 0 4]
  show ?thesis using ok by simp
qed

section \<open>Properties of the progress tracker\<close>

lemma Set_has_iff: "Set_has s v \<longleftrightarrow> primitive v \<and> v \<in> set s"
  by (auto simp: Set_has_def list_ex_iff sameValueZero_def)

lemma primitive_JNum [simp]: "primitive (JNum x)"
  by (simp add: primitive_def)

lemma set_Set_add: "primitive v \<Longrightarrow> set (Set_add s v) = insert v (set s)"
  by (auto simp: Set_add_def Set_has_iff)

lemma set_Set_delete: "primitive v \<Longrightarrow> set (Set_delete s v) = set s - {v}"
  by (auto simp: Set_delete_def sameValueZero_def)

lemma Set_delete_absent: "v \<notin> set s \<Longrightarrow> Set_delete s v = s"
  by (auto simp: Set_delete_def sameValueZero_def filter_id_conv)

lemma toggle_completedChallenges:
  "completedChallenges (fst (toggleChallengeCompletion stringify now i a)) =
     (if Set_has (completedChallenges a) (JNum (of_int i))
      then Set_delete (completedChallenges a) (JNum (of_int i))
      else Set_add (completedChallenges a) (JNum (of_int i)))"
  by (simp add: toggleChallengeCompletion_def closeModal_def saveProgress_def Let_def
        split: sum.splits)

lemma toggle_filteredChallenges:
  "filteredChallenges (fst (toggleChallengeCompletion stringify now i a)) = filteredChallenges a"
  by (simp add: toggleChallengeCompletion_def closeModal_def saveProgress_def Let_def
        split: sum.splits)

lemma toggle_flips:
  "Set_has (completedChallenges (fst (toggleChallengeCompletion stringify now i a)))
       (JNum (of_int i))
     = (\<not> Set_has (completedChallenges a) (JNum (of_int i)))"
  by (simp add: toggle_completedChallenges Set_has_iff set_Set_add set_Set_delete)

lemma toggle_others:
  "j \<noteq> i \<Longrightarrow>
   Set_has (completedChallenges (fst (toggleChallengeCompletion stringify now i a)))
       (JNum (of_int j))
     = Set_has (completedChallenges a) (JNum (of_int j))"
  by (simp add: toggle_completedChallenges Set_has_iff set_Set_add set_Set_delete)

lemma toggle_twice:
  "set (completedChallenges
          (fst (toggleChallengeCompletion stringify now' i
                  (fst (toggleChallengeCompletion stringify now i a)))))
     = set (completedChallenges a)"
  by (auto simp: toggle_completedChallenges Set_has_iff set_Set_add set_Set_delete)

lemma toggle_saves:
  "progress_item (fst (toggleChallengeCompletion stringify now i a))
     = Some (stringify (JObj [(''completedChallenges'',
                JArr (completedChallenges (fst (toggleChallengeCompletion stringify now i a)))),
              (''lastUpdated'', JStr now)]))"
  by (simp add: toggleChallengeCompletion_def closeModal_def saveProgress_def Let_def
        split: sum.splits)

lemma toggle_returns:
  assumes "\<forall>c\<in>set (filteredChallenges a). tags_wellformed c"
  shows "snd (toggleChallengeCompletion stringify now i a) = None"
    and "editor (fst (toggleChallengeCompletion stringify now i a)) = None"
proof -
  have "renderChallenges (filteredChallenges a) = Inr ()"
    using assms by (rule renderChallenges_wellformed)
  then show "snd (toggleChallengeCompletion stringify now i a) = None"
    and "editor (fst (toggleChallengeCompletion stringify now i a)) = None"
    by (simp_all add: toggleChallengeCompletion_def closeModal_def saveProgress_def Let_def)
qed

lemma toggle_returns_twice:
  assumes "\<forall>c\<in>set (filteredChallenges a). tags_wellformed c"
  shows "snd (toggleChallengeCompletion stringify now' i
                (fst (toggleChallengeCompletion stringify now i a))) = None"
  by (rule toggle_returns) (simp add: toggle_filteredChallenges assms)

text \<open>
  With a challenge without \<open>tags\<close> among the filtered ones the set is toggled and saved
  all the same, but the method is left by the TypeError of the rendering and the editor
  is still there.
\<close>

lemma toggle_untagged_throws:
  "snd (toggleChallengeCompletion sample_stringify ''t1'' 3
          ((constructed [motions, untagged] None None)\<lparr>editor := Some right_answer\<rparr>))
     = Some TypeError"
  "editor (fst (toggleChallengeCompletion sample_stringify ''t1'' 3
          ((constructed [motions, untagged] None None)\<lparr>editor := Some right_answer\<rparr>)))
     = Some right_answer"
  "completedChallenges (fst (toggleChallengeCompletion sample_stringify ''t1'' 3
          ((constructed [motions, untagged] None None)\<lparr>editor := Some right_answer\<rparr>)))
     = [JNum 3]"
  by (simp_all add: toggleChallengeCompletion_def constructed_def saveProgress_def Let_def
        createChallengeCard_def motions_def untagged_def Set_has_iff Set_add_def)

text \<open>
  C4. For every state and every id, \<open>toggleChallengeCompletion\<close> leaves the object with
  the membership of that id in \<open>completedChallenges\<close> flipped, the membership of every
  other id as before, and the new set saved. Toggling the same id twice gives back the
  original set. When the filtered challenges carry an array of strings as \<open>tags\<close>, as the
  data model has it, the method returns, with the modal closed, the first time and the
  second: it has no failing branch of its own.
\<close>

theorem toggle_flips_membership:
  "Set_has (completedChallenges (fst (toggleChallengeCompletion stringify now i a)))
       (JNum (of_int i))
     = (\<not> Set_has (completedChallenges a) (JNum (of_int i)))
   \<and> (j \<noteq> i \<longrightarrow>
        Set_has (completedChallenges (fst (toggleChallengeCompletion stringify now i a)))
            (JNum (of_int j))
          = Set_has (completedChallenges a) (JNum (of_int j)))
   \<and> progress_item (fst (toggleChallengeCompletion stringify now i a))
        = Some (stringify (JObj [(''completedChallenges'',
                   JArr (completedChallenges (fst (toggleChallengeCompletion stringify now i a)))),
                 (''lastUpdated'', JStr now)]))
   \<and> set (completedChallenges
            (fst (toggleChallengeCompletion stringify now' i
                    (fst (toggleChallengeCompletion stringify now i a)))))
        = set (completedChallenges a)
   \<and> ((\<forall>c\<in>set (filteredChallenges a). tags_wellformed c) \<longrightarrow>
        snd (toggleChallengeCompletion stringify now i a) = None
        \<and> editor (fst (toggleChallengeCompletion stringify now i a)) = None
        \<and> snd (toggleChallengeCompletion stringify now' i
                  (fst (toggleChallengeCompletion stringify now i a))) = None)"
  using toggle_flips[of stringify now i a] toggle_others[of j i stringify now a]
    toggle_twice[of stringify now' i now a] toggle_saves[of stringify now i a]
    toggle_returns[of a stringify now i] toggle_returns_twice[of a stringify now' i now]
  by blast

theorem toggle_flips_membership_witness:
  "tags_wellformed motions \<and> tags_wellformed text_objects \<and> tags_wellformed macros
   \<and> filteredChallenges sample_app = [motions, text_objects, macros]
   \<and> snd (toggleChallengeCompletion sample_stringify ''t1'' 3 sample_app) = None
   \<and> snd (toggleChallengeCompletion sample_stringify ''t2'' 3
         (fst (toggleChallengeCompletion sample_stringify ''t1'' 3 sample_app))) = None
   \<and> completedChallenges (fst (toggleChallengeCompletion sample_stringify ''t1'' 3 sample_app))
       = [JNum 1]
   \<and> completedChallenges (fst (toggleChallengeCompletion sample_stringify ''t2'' 3
         (fst (toggleChallengeCompletion sample_stringify ''t1'' 3 sample_app)))) = [JNum 1, JNum 3]
   \<and> Set_has (completedChallenges (fst (toggleChallengeCompletion sample_stringify ''t1'' 3 sample_app)))
        (JNum (of_int 1))
   \<and> \<not> Set_has (completedChallenges (fst (toggleChallengeCompletion sample_stringify ''t1'' 3 sample_app)))
        (JNum (of_int 3))"
proof -
  let ?a1 = "fst (toggleChallengeCompletion sample_stringify ''t1'' 3 sample_app)"
  have wf: "tags_wellformed motions" "tags_wellformed text_objects" "tags_wellformed macros"
    using sample_catalog_wellformed by simp_all
  have fc: "filteredChallenges sample_app = [motions, text_objects, macros]"
    by (simp add: sample_app_def constructed_def)
  have has: "Set_has (completedChallenges sample_app) (JNum (of_int 3))"
       "Set_has (completedChallenges sample_app) (JNum (of_int 1))"
    by (simp_all add: sample_app_def constructed_def Set_has_iff)
  have l1: "completedChallenges ?a1 = [JNum 1]"
    by (simp add: toggle_completedChallenges has[simplified])
       (simp add: sample_app_def constructed_def Set_delete_def sameValueZero_def)
  have l2: "completedChallenges (fst (toggleChallengeCompletion sample_stringify ''t2'' 3 ?a1))
         = [JNum 1, JNum 3]"
    by (simp add: toggle_completedChallenges[of _ _ _ ?a1] l1)
       (simp add: Set_has_iff Set_add_def)
  from toggle_flips_membership[of sample_stringify "''t1''" 3 sample_app 1 "''t2''"]
  show ?thesis using wf fc has l1 l2 by simp
qed

lemma foldl_Set_add_distinct:
  assumes "distinct (acc @ xs)" "\<forall>x\<in>set xs. primitive x"
  shows "foldl Set_add acc xs = acc @ xs"
  using assms
proof (induction xs arbitrary: acc)
  case Nil
  then show ?case by simp
next
  case (Cons x xs)
  have "Set_add acc x = acc @ [x]"
    using Cons.prems by (simp add: Set_add_def Set_has_iff)
  moreover have "foldl Set_add (acc @ [x]) xs = (acc @ [x]) @ xs"
    using Cons.prems by (intro Cons.IH) auto
  ultimately show ?case by simp
qed

lemma new_Set_distinct:
  "distinct xs \<Longrightarrow> \<forall>x\<in>set xs. primitive x \<Longrightarrow> new_Set xs = xs"
  using foldl_Set_add_distinct[of "[]" xs] by (simp add: new_Set_def)

lemma new_Set_ids:
  assumes "distinct ids"
  shows "new_Set (map (\<lambda>i. JNum (of_int i)) ids) = map (\<lambda>i. JNum (of_int i)) ids"
proof (rule new_Set_distinct)
  show "distinct (map (\<lambda>i. JNum (of_int i)) ids)"
    using assms by (simp add: distinct_map inj_on_def)
  show "\<forall>x\<in>set (map (\<lambda>i. JNum (of_int i)) ids). primitive x"
    by auto
qed

text \<open>
  C5. When the set of completed ids is a finite set of integers, what \<open>saveProgress\<close>
  writes is read back by \<open>loadProgress\<close> as the same set (the same elements in the same
  order), in whatever state the reading object is. The platform is asked one thing:
  that \<open>JSON.parse\<close> gives back the saved object from the text \<open>JSON.stringify\<close> made of
  it, a text that is not empty.
\<close>

theorem restore_persist_roundtrip:
  assumes ids: "completedChallenges a = map (\<lambda>i. JNum (of_int i)) ids" "distinct ids"
    and codec:
      "parse (stringify (JObj [(''completedChallenges'', JArr (completedChallenges a)),
                               (''lastUpdated'', JStr now)]))
         = Some (JObj [(''completedChallenges'', JArr (completedChallenges a)),
                       (''lastUpdated'', JStr now)])"
      "stringify (JObj [(''completedChallenges'', JArr (completedChallenges a)),
                        (''lastUpdated'', JStr now)]) \<noteq> []"
    and stored: "progress_item b = progress_item (saveProgress stringify now a)"
  shows "completedChallenges (loadProgress parse b) = completedChallenges a
       \<and> completedChallenges (loadProgress parse (saveProgress stringify now a))
           = completedChallenges a"
proof -
  have "completedChallenges (loadProgress parse c) = completedChallenges a"
    if "progress_item c = progress_item (saveProgress stringify now a)" for c
    using that codec new_Set_ids[OF ids(2)]
    by (simp add: loadProgress_def loadProgress_try_def saveProgress_def Let_def
          get_property_def or_else_def truthy_def new_Set_of_def ids(1))
  from this[OF stored] this[OF refl] show ?thesis by simp
qed

theorem restore_persist_roundtrip_witness:
  "completedChallenges sample_app = map (\<lambda>i. JNum (of_int i)) [1, 3]
   \<and> progress_item (saveProgress sample_stringify ''2024-05-01T10:00:00.000Z'' sample_app)
       = Some saved_text
   \<and> completedChallenges
       (loadProgress sample_parse
          (constructed [motions, text_objects, macros] (Some saved_text) None))
       = [JNum 1, JNum 3]"
proof -
  let ?now = "''2024-05-01T10:00:00.000Z''"
  let ?b = "constructed [motions, text_objects, macros] (Some saved_text) None"
  have cc: "completedChallenges sample_app = map (\<lambda>i. JNum (of_int i)) [1, 3]"
    by (simp add: sample_app_def constructed_def)
  have d: "distinct [1, 3::int]"
    by simp
  have obj: "JObj [(''completedChallenges'', JArr (completedChallenges sample_app)),
                   (''lastUpdated'', JStr ?now)] = saved_object"
    by (simp add: saved_object_def sample_app_def constructed_def)
  have str: "sample_stringify saved_object = saved_text"
    by (simp add: sample_stringify_def)
  have codec: "sample_parse (sample_stringify (JObj [(''completedChallenges'',
                   JArr (completedChallenges sample_app)), (''lastUpdated'', JStr ?now)]))
      = Some (JObj [(''completedChallenges'', JArr (completedChallenges sample_app)),
                    (''lastUpdated'', JStr ?now)])"
    unfolding obj str by (simp add: sample_parse_def)
  have nonempty: "sample_stringify (JObj [(''completedChallenges'',
                   JArr (completedChallenges sample_app)), (''lastUpdated'', JStr ?now)]) \<noteq> []"
    unfolding obj str by (simp add: saved_text_def)
  have item: "progress_item (saveProgress sample_stringify ?now sample_app) = Some saved_text"
    unfolding saveProgress_def Let_def obj str by simp
  have stored: "progress_item ?b = progress_item (saveProgress sample_stringify ?now sample_app)"
    unfolding item by (simp add: constructed_def)
  from restore_persist_roundtrip[where a = sample_app and parse = sample_parse
      and stringify = sample_stringify and b = ?b, OF cc d codec nonempty stored]
  have "completedChallenges (loadProgress sample_parse ?b) = completedChallenges sample_app"
    by simp
  with cc item show ?thesis by simp
qed

lemma loadProgress_missing:
  "progress_item a = None \<Longrightarrow> loadProgress parse a = a"
  by (simp add: loadProgress_def loadProgress_try_def)

lemma loadProgress_garbage:
  "progress_item a = Some s \<Longrightarrow> parse s = None \<Longrightarrow> loadProgress parse a = a"
  by (simp add: loadProgress_def loadProgress_try_def)

lemma loadProgress_no_field:
  "progress_item a = Some s \<Longrightarrow> parse s = Some (JObj kvs) \<Longrightarrow>
   map_of kvs ''completedChallenges'' = None \<Longrightarrow>
   completedChallenges (loadProgress parse a) = [] \<or> loadProgress parse a = a"
  by (simp add: loadProgress_def loadProgress_try_def get_property_def or_else_def
        new_Set_of_def new_Set_def)

text \<open>
  C6. In an object as the constructor leaves it, \<open>loadProgress\<close> ends with an empty set
  of completed ids when the stored item is missing, when it is not JSON (the
  SyntaxError of \<open>JSON.parse\<close> is caught inside the method), and when it parses to an
  object without the \<open>completedChallenges\<close> field. The method returns a state in each of
  these cases; no error leaves it.
\<close>

theorem restore_recovers_empty:
  assumes "stored = None
           \<or> (\<exists>s. stored = Some s \<and> parse s = None)
           \<or> (\<exists>s kvs. stored = Some s \<and> parse s = Some (JObj kvs)
                \<and> map_of kvs ''completedChallenges'' = None)"
  shows "completedChallenges (loadProgress parse (constructed cs stored e)) = []"
proof -
  have p: "progress_item (constructed cs stored e) = stored"
      and c: "completedChallenges (constructed cs stored e) = []"
    by (simp_all add: constructed_def)
  from assms consider "stored = None" | s where "stored = Some s" "parse s = None"
    | s kvs where "stored = Some s" "parse s = Some (JObj kvs)"
        "map_of kvs ''completedChallenges'' = None"
    by blast
  then show ?thesis
  proof cases
    case 1
    then show ?thesis using loadProgress_missing[of "constructed cs stored e" parse] p c by simp
  next
    case 2
    then show ?thesis using loadProgress_garbage[of "constructed cs stored e" s parse] p c by simp
  next
    case 3
    then show ?thesis
      using loadProgress_no_field[of "constructed cs stored e" s parse kvs] p c by auto
  qed
qed

theorem restore_recovers_empty_witness:
  "completedChallenges (loadProgress sample_parse (constructed [motions] None None)) = []
   \<and> sample_parse ''not json {'' = None
   \<and> completedChallenges
       (loadProgress sample_parse (constructed [motions] (Some ''not json {'') None)) = []
   \<and> sample_parse other_text = Some other_object
   \<and> completedChallenges
       (loadProgress sample_parse (constructed [motions] (Some other_text) None)) = []"
proof -
  have g: "sample_parse ''not json {'' = None"
    by (simp add: sample_parse_def saved_text_def other_text_def)
  have o: "sample_parse other_text = Some other_object"
    by (simp add: sample_parse_def saved_text_def other_text_def)
  have m: "map_of [(''lastUpdated'', JStr ''2024-05-01T10:00:00.000Z'')] ''completedChallenges'' = None"
    by simp
  from restore_recovers_empty[of None sample_parse "[motions]" None]
    restore_recovers_empty[of "Some ''not json {''" sample_parse "[motions]" None]
    restore_recovers_empty[of "Some other_text" sample_parse "[motions]" None]
  show ?thesis using g o m by (simp add: other_object_def)
qed

section \<open>Properties of the arithmetic\<close>

text \<open>
  \<open>binary_exponent\<close> is the exponent of the leading bit, so \<open>fl\<close> keeps 53 significant
  bits and its relative error is at most \<open>2 ^ -53\<close>.
\<close>

lemma binary_exponent_lower:
  assumes "0 < x"
  shows "2 powi binary_exponent x \<le> x"
proof (cases "1 \<le> x")
  case True
  then have pos: "0 < \<lfloor>x\<rfloor>" by simp
  have b1: "1 \<le> bitlen \<lfloor>x\<rfloor>"
    using pos bitlen_eq_zero_iff[of "\<lfloor>x\<rfloor>"] bitlen_nonneg[of "\<lfloor>x\<rfloor>"] by linarith
  from bitlen_bounds[OF pos] have "(2::int) ^ nat (bitlen \<lfloor>x\<rfloor> - 1) \<le> \<lfloor>x\<rfloor>" by simp
  then have "(of_int ((2::int) ^ nat (bitlen \<lfloor>x\<rfloor> - 1)) :: rat) \<le> of_int \<lfloor>x\<rfloor>"
    by (simp only: of_int_le_iff)
  then have "(2::rat) ^ nat (bitlen \<lfloor>x\<rfloor> - 1) \<le> x"
    by (simp add: le_floor_iff)
  then show ?thesis
    using True b1 by (simp add: binary_exponent_def power_int_nonneg_exp)
next
  case False
  with assms have x1: "x < 1" by simp
  let ?k = "\<lceil>1 / x\<rceil>"
  have "1 < 1 / x" using assms x1 by (simp add: field_simps)
  then have k2: "2 \<le> ?k" by (simp add: le_ceiling_iff)
  then have pos: "0 < ?k - 1" by simp
  from bitlen_bounds[OF pos] have "?k - 1 < 2 ^ nat (bitlen (?k - 1))" by simp
  then have "?k \<le> 2 ^ nat (bitlen (?k - 1))" by simp
  then have "(of_int ?k :: rat) \<le> of_int (2 ^ nat (bitlen (?k - 1)))"
    by (simp only: of_int_le_iff)
  also have "(of_int (2 ^ nat (bitlen (?k - 1))) :: rat) = 2 ^ nat (bitlen (?k - 1))"
    by simp
  finally have "(of_int ?k :: rat) \<le> 2 ^ nat (bitlen (?k - 1))" .
  with le_of_int_ceiling[of "1 / x"] have "1 / x \<le> 2 ^ nat (bitlen (?k - 1))"
    by (rule order_trans)
  then have "1 / 2 ^ nat (bitlen (?k - 1)) \<le> x"
    using assms by (simp add: field_simps)
  moreover have "2 powi (- bitlen (?k - 1)) = (1::rat) / 2 ^ nat (bitlen (?k - 1))"
    using bitlen_nonneg[of "?k - 1"] by (simp add: power_int_minus_divide power_int_nonneg_exp)
  ultimately show ?thesis
    using False by (simp add: binary_exponent_def)
qed

lemma binary_exponent_upper:
  assumes "0 < x"
  shows "x < 2 powi (binary_exponent x + 1)"
proof (cases "1 \<le> x")
  case True
  then have pos: "0 < \<lfloor>x\<rfloor>" by simp
  have b0: "0 \<le> bitlen \<lfloor>x\<rfloor>" by (rule bitlen_nonneg)
  from bitlen_bounds[OF pos] have "\<lfloor>x\<rfloor> < 2 ^ nat (bitlen \<lfloor>x\<rfloor>)" by simp
  then have "x < of_int (2 ^ nat (bitlen \<lfloor>x\<rfloor>))"
    by (simp only: floor_less_iff)
  then show ?thesis
    using True b0 by (simp add: binary_exponent_def power_int_nonneg_exp)
next
  case False
  with assms have x1: "x < 1" by simp
  let ?k = "\<lceil>1 / x\<rceil>"
  let ?b = "bitlen (?k - 1)"
  have "1 < 1 / x" using assms x1 by (simp add: field_simps)
  then have k2: "2 \<le> ?k" by (simp add: le_ceiling_iff)
  then have pos: "0 < ?k - 1" by simp
  have b1: "1 \<le> ?b"
    using pos bitlen_eq_zero_iff[of "?k - 1"] bitlen_nonneg[of "?k - 1"] by linarith
  from bitlen_bounds[OF pos] have "(2::int) ^ nat (?b - 1) \<le> ?k - 1" by simp
  then have "(of_int ((2::int) ^ nat (?b - 1)) :: rat) \<le> of_int (?k - 1)"
    by (simp only: of_int_le_iff)
  moreover have "of_int (?k - 1) < 1 / x"
    using ceiling_correct[of "1 / x"] by simp
  ultimately have "(2::rat) ^ nat (?b - 1) < 1 / x" by simp
  then have "x < 1 / 2 ^ nat (?b - 1)"
    using assms by (simp add: field_simps)
  moreover have "2 powi (- ?b + 1) = (1::rat) / 2 ^ nat (?b - 1)"
  proof -
    have "- ?b + 1 = - (?b - 1)" by simp
    then show ?thesis using b1 by (simp only: power_int_minus_divide) (simp add: power_int_nonneg_exp)
  qed
  ultimately show ?thesis
    using False by (simp add: binary_exponent_def)
qed

lemma round_ties_even_error: "\<bar>of_int (round_ties_even x) - x\<bar> \<le> 1 / 2"
proof -
  have "of_int \<lfloor>x\<rfloor> \<le> x" "x < of_int \<lfloor>x\<rfloor> + 1" by linarith+
  then show ?thesis
    by (auto simp: round_ties_even_def Let_def abs_le_iff)
qed

lemma fl_error:
  assumes "0 < x"
  shows "\<bar>fl x - x\<bar> \<le> x / 2 ^ 53"
proof -
  define p :: rat where "p = 2 powi (binary_exponent x - 52)"
  define k where "k = round_ties_even (x / p)"
  have p0: "0 < p" by (simp add: p_def)
  have flx: "fl x = of_int k * p"
    using assms by (simp add: fl_def Let_def p_def k_def)
  have "\<bar>of_int k - x / p\<bar> \<le> 1 / 2"
    unfolding k_def by (rule round_ties_even_error)
  then have "\<bar>of_int k - x / p\<bar> * p \<le> 1 / 2 * p"
    using p0 by (simp only: mult_le_cancel_right_pos)
  moreover have "\<bar>of_int k - x / p\<bar> * p = \<bar>of_int k * p - x\<bar>"
  proof -
    have "\<bar>of_int k - x / p\<bar> * p = \<bar>(of_int k - x / p) * p\<bar>"
      using p0 by (simp add: abs_mult)
    also have "(of_int k - x / p) * p = of_int k * p - x"
      using p0 by (simp add: field_simps)
    finally show ?thesis .
  qed
  ultimately have e1: "\<bar>fl x - x\<bar> \<le> p / 2"
    by (simp add: flx)
  have "p * 2 ^ 52 = 2 powi (binary_exponent x - 52) * 2 powi 52"
    by (simp add: p_def)
  also have "\<dots> = 2 powi binary_exponent x"
    by (subst power_int_add[symmetric]) simp_all
  also have "\<dots> \<le> x" by (rule binary_exponent_lower[OF assms])
  finally have "p * 2 ^ 52 \<le> x" .
  then have "p / 2 \<le> x / 2 ^ 53" by simp
  with e1 show ?thesis by linarith
qed

lemma fl_zero [simp]: "fl 0 = 0"
  by (simp add: fl_def)

lemma fl_positive:
  assumes "0 < x"
  shows "0 < fl x"
proof -
  have "x / 2 ^ 53 < x" using assms by simp
  with fl_error[OF assms] show ?thesis by linarith
qed

lemma percent_error:
  assumes "0 < q" "q \<le> 1"
  shows "\<bar>fl (fl q * 100) - 100 * q\<bar> < 1 / 2 ^ 45"
proof -
  define u :: rat where "u = 1 / 2 ^ 53"
  have e1: "\<bar>fl q - q\<bar> \<le> q * u"
    using fl_error[OF assms(1)] by (simp add: u_def)
  have qu: "q * u \<le> u" using assms by (simp add: u_def)
  have z0: "0 < fl q * 100" using fl_positive[OF assms(1)] by simp
  have e2: "\<bar>fl (fl q * 100) - fl q * 100\<bar> \<le> fl q * 100 * u"
    using fl_error[OF z0] by (simp add: u_def)
  have flq: "fl q \<le> 1 + u" using e1 qu assms(2) by linarith
  have u0: "0 < u" by (simp add: u_def)
  have "fl q * 100 * u \<le> (1 + u) * 100 * u"
    using flq u0 by simp
  with e1 e2 qu have "\<bar>fl (fl q * 100) - 100 * q\<bar> \<le> (1 + u) * 100 * u + 100 * u"
    by linarith
  also have "\<dots> < 1 / 2 ^ 45" by (simp add: u_def)
  finally show ?thesis .
qed

lemma round_of_quotient_cases:
  fixes y v :: rat and K D :: int
  assumes D: "0 < D" and dD: "1 / 2 ^ 45 \<le> 1 / (of_int D :: rat)"
    and v: "v + 1 / 2 = of_int K / of_int D"
    and close: "\<bar>y - v\<bar> < 1 / 2 ^ 45"
  shows "\<lfloor>y + 1 / 2\<rfloor> = round v \<or> (\<lfloor>y + 1 / 2\<rfloor> = round v - 1 \<and> K mod D = 0)"
proof -
  define n where "n = round v"
  define d :: rat where "d = 1 / of_int D"
  have n: "n = \<lfloor>of_int K / of_int D :: rat\<rfloor>"
    by (simp add: n_def round_def v)
  then have nKD: "n = K div D" by (simp add: floor_divide_of_int_eq)
  have D': "(0::rat) < of_int D" using D by simp
  have w: "v + 1 / 2 = of_int n + of_int (K mod D) * d"
  proof -
    have "K = n * D + K mod D" by (simp add: nKD)
    then have "(of_int K :: rat) = of_int n * of_int D + of_int (K mod D)"
      by (metis of_int_add of_int_mult)
    then show ?thesis using D' by (simp add: v d_def field_simps)
  qed
  have d0: "0 < d" using D' by (simp add: d_def)
  have "\<bar>y - v\<bar> < d"
    using close dD unfolding d_def by (rule less_le_trans)
  then have yv: "v - d < y" "y < v + d"
    by linarith+
  have m0: "0 \<le> K mod D" and m1: "K mod D \<le> D - 1"
    using D by simp_all
  have up: "of_int (K mod D) * d \<le> 1 - d"
  proof -
    have "(of_int (K mod D) :: rat) \<le> of_int (D - 1)"
      using m1 by (simp only: of_int_le_iff)
    then have "of_int (K mod D) * d \<le> of_int (D - 1) * d"
      using d0 by (simp only: mult_le_cancel_right_pos)
    also have "of_int (D - 1) * d = 1 - d"
      using D' by (simp add: d_def field_simps)
    finally show ?thesis .
  qed
  have lo0: "0 \<le> of_int (K mod D) * d"
    using m0 d0 by simp
  have d1: "d \<le> 1"
    using D by (simp add: d_def)
  have upper: "\<lfloor>y + 1 / 2\<rfloor> \<le> n"
  proof -
    have "y + 1 / 2 < of_int n + 1" using yv(2) w up by linarith
    then have "y + 1 / 2 < of_int (n + 1)" by simp
    then have "\<lfloor>y + 1 / 2\<rfloor> < n + 1" by (simp only: floor_less_iff)
    then show ?thesis by linarith
  qed
  have lower: "n - 1 \<le> \<lfloor>y + 1 / 2\<rfloor>"
  proof -
    have "of_int n - 1 \<le> y + 1 / 2" using yv(1) w lo0 d1 by linarith
    then have "of_int (n - 1) \<le> y + 1 / 2" by simp
    then show ?thesis by (simp only: le_floor_iff)
  qed
  have exact: "n \<le> \<lfloor>y + 1 / 2\<rfloor>" if "K mod D \<noteq> 0"
  proof -
    from that m0 have "1 \<le> K mod D" by linarith
    then have "(1::rat) \<le> of_int (K mod D)" by simp
    then have "1 * d \<le> of_int (K mod D) * d"
      using d0 by (simp only: mult_le_cancel_right_pos)
    then have "d \<le> of_int (K mod D) * d" by simp
    then have "of_int n \<le> y + 1 / 2" using yv(1) w by linarith
    then show ?thesis by (simp only: le_floor_iff)
  qed
  from upper lower exact show ?thesis
    unfolding n_def[symmetric] by (cases "K mod D = 0") auto
qed

lemma success_rate_cases:
  assumes c: "0 < c" "c \<le> 2 ^ 44" and s: "s \<le> c"
  shows "Math_round (times100 (js_divide s c)) = Num (of_int (round (100 * of_nat s / of_nat c :: rat)))
       \<or> ((200 * s + c) mod (2 * c) = 0
          \<and> Math_round (times100 (js_divide s c))
              = Num (of_int (round (100 * of_nat s / of_nat c :: rat) - 1)))"
proof (cases "s = 0")
  case True
  then show ?thesis using c by (simp add: js_divide_def times100_def Math_round_def round_def)
next
  case False
  define q :: rat where "q = of_nat s / of_nat c"
  define v :: rat where "v = 100 * of_nat s / of_nat c"
  define y where "y = fl (fl q * 100)"
  have q: "0 < q" "q \<le> 1" using False c s by (simp_all add: q_def)
  have close: "\<bar>y - v\<bar> < 1 / 2 ^ 45"
    using percent_error[OF q] by (simp add: y_def v_def q_def)
  have D: "0 < int (2 * c)" using c by simp
  have "(of_nat c :: rat) \<le> 2 ^ 44"
    using c(2) by (metis of_nat_le_iff of_nat_numeral of_nat_power)
  then have dD: "1 / 2 ^ 45 \<le> 1 / (of_int (int (2 * c)) :: rat)"
    using c(1) by (simp add: field_simps)
  have vK: "v + 1 / 2 = of_int (int (200 * s + c)) / of_int (int (2 * c))"
    using c(1) by (simp add: v_def field_simps)
  have val: "Math_round (times100 (js_divide s c)) = Num (of_int \<lfloor>y + 1 / 2\<rfloor>)"
    using c(1) by (simp add: js_divide_def times100_def Math_round_def y_def q_def)
  have m: "int (200 * s + c) mod int (2 * c) = 0 \<longleftrightarrow> (200 * s + c) mod (2 * c) = 0"
    by (metis of_nat_mod of_nat_eq_0_iff)
  from round_of_quotient_cases[OF D dD vK close] show ?thesis
    unfolding val v_def[symmetric] using m by auto
qed

section \<open>Properties of the statistics and of the export\<close>

text \<open>
  C2. With an empty catalog \<open>exportProgress\<close> divides by zero: the exported percentage
  is \<open>NaN\<close> when nothing is completed and \<open>Infinity\<close> otherwise, not 0. \<open>updateStats\<close>
  tests \<open>total > 0\<close> first and shows 0 for the same state.
\<close>

theorem exportProgress_empty_catalog:
  "completionPercentage (exportProgress now (constructed [] p e)) = NaN
   \<and> completionPercentage
         (exportProgress now ((constructed [] p e)\<lparr>completedChallenges := [JNum 1]\<rparr>)) = Infinity
   \<and> updateStats (constructed [] p e) = Num 0
   \<and> updateStats ((constructed [] p e)\<lparr>completedChallenges := [JNum 1]\<rparr>) = Num 0"
  by (simp add: exportProgress_def updateStats_def constructed_def js_divide_def times100_def
        Math_round_def)

lemma exportProgress_percentage:
  assumes "0 < length (challenges a)" "length (challenges a) \<le> 2 ^ 44"
    "length (completedChallenges a) \<le> length (challenges a)"
  shows "completionPercentage (exportProgress now a)
           = Num (of_int (round (100 * of_nat (length (completedChallenges a))
                                   / of_nat (length (challenges a)) :: rat)))
       \<or> ((200 * length (completedChallenges a) + length (challenges a))
             mod (2 * length (challenges a)) = 0
          \<and> completionPercentage (exportProgress now a)
              = Num (of_int (round (100 * of_nat (length (completedChallenges a))
                                      / of_nat (length (challenges a)) :: rat) - 1)))"
  using success_rate_cases[OF assms(1,2,3)] by (simp add: exportProgress_def)

lemma submitExercise_counts:
  assumes "editor a = Some ed" "currentExercise a = Some ex"
  shows "completed (exerciseStats (submitExercise stringify now rnd a))
           = completed (exerciseStats a) + 1"
    and "stats_success (exerciseStats (submitExercise stringify now rnd a))
           = stats_success (exerciseStats a)
             + (if success (evaluateExercise ex (editor_value ed) (editor_cursor ed) rnd)
                then 1 else 0)"
  using assms by (simp_all add: submitExercise_def saveExerciseProgress_def Let_def)

lemma submitExercise_invariant:
  assumes "stats_success (exerciseStats a) \<le> completed (exerciseStats a)"
  shows "stats_success (exerciseStats (submitExercise stringify now rnd a))
           \<le> completed (exerciseStats (submitExercise stringify now rnd a))"
  using assms
  by (auto simp: submitExercise_def saveExerciseProgress_def Let_def split: option.splits)

lemma submissions_invariant:
  assumes "stats_success (exerciseStats a) \<le> completed (exerciseStats a)"
  shows "stats_success (exerciseStats (submissions stringify now subs a))
           \<le> completed (exerciseStats (submissions stringify now subs a))"
  using assms
proof (induction subs arbitrary: a)
  case Nil
  then show ?case by simp
next
  case (Cons sub subs)
  obtain ed rnd where sub: "sub = (ed, rnd)" by (cases sub)
  have "stats_success (exerciseStats (a\<lparr>editor := Some ed\<rparr>))
          \<le> completed (exerciseStats (a\<lparr>editor := Some ed\<rparr>))"
    using Cons.prems by simp
  then have "stats_success (exerciseStats (submitExercise stringify now rnd (a\<lparr>editor := Some ed\<rparr>)))
          \<le> completed (exerciseStats (submitExercise stringify now rnd (a\<lparr>editor := Some ed\<rparr>)))"
    by (rule submitExercise_invariant)
  then show ?case unfolding sub by (simp add: Cons.IH)
qed

lemma updateExerciseStats_zero:
  "completed (exerciseStats a) = 0 \<Longrightarrow> updateExerciseStats a = Num 0"
  by (simp add: updateExerciseStats_def)

lemma updateExerciseStats_cases:
  assumes "0 < completed (exerciseStats a)" "completed (exerciseStats a) \<le> 2 ^ 44"
    "stats_success (exerciseStats a) \<le> completed (exerciseStats a)"
  shows "updateExerciseStats a
           = Num (of_int (round (100 * of_nat (stats_success (exerciseStats a))
                                   / of_nat (completed (exerciseStats a)) :: rat)))
       \<or> ((200 * stats_success (exerciseStats a) + completed (exerciseStats a))
             mod (2 * completed (exerciseStats a)) = 0
          \<and> updateExerciseStats a
              = Num (of_int (round (100 * of_nat (stats_success (exerciseStats a))
                                      / of_nat (completed (exerciseStats a)) :: rat) - 1)))"
  using success_rate_cases[OF assms] assms(1) by (simp add: updateExerciseStats_def)

text \<open>
  C9, as the code has it. A submission (an editor and a current exercise being there)
  adds one to \<open>completed\<close>, and one to \<open>success\<close> exactly when the verdict is a
  success; \<open>success \<le> completed\<close> is kept by every run of submissions, so it holds after
  every run that starts from the zeroed statistics of the constructor. The rate shown is
  0 when \<open>completed\<close> is 0; otherwise it is \<open>Math.round\<close> of the double
  \<open>(success / completed) * 100\<close>, which is \<open>round (100 * success / completed)\<close>, except
  that in a tie (\<open>100 * success / completed\<close> half-way between two integers) it may be
  the integer below (for counts up to \<open>2 ^ 44\<close>).
\<close>

theorem exercise_stats_update:
  "(editor a = Some ed \<and> currentExercise a = Some ex \<longrightarrow>
      completed (exerciseStats (submitExercise stringify now rnd a))
        = completed (exerciseStats a) + 1
      \<and> stats_success (exerciseStats (submitExercise stringify now rnd a))
        = stats_success (exerciseStats a)
          + (if success (evaluateExercise ex (editor_value ed) (editor_cursor ed) rnd)
             then 1 else 0))
   \<and> (stats_success (exerciseStats a) \<le> completed (exerciseStats a) \<longrightarrow>
        stats_success (exerciseStats (submissions stringify now subs a))
          \<le> completed (exerciseStats (submissions stringify now subs a)))
   \<and> stats_success (exerciseStats (submissions stringify now subs
          ((constructed cs p e)\<lparr>currentExercise := x\<rparr>)))
        \<le> completed (exerciseStats (submissions stringify now subs
          ((constructed cs p e)\<lparr>currentExercise := x\<rparr>)))
   \<and> (completed (exerciseStats a) = 0 \<longrightarrow> updateExerciseStats a = Num 0)
   \<and> (0 < completed (exerciseStats a) \<and> completed (exerciseStats a) \<le> 2 ^ 44
        \<and> stats_success (exerciseStats a) \<le> completed (exerciseStats a) \<longrightarrow>
        updateExerciseStats a
          = Num (of_int (round (100 * of_nat (stats_success (exerciseStats a))
                                  / of_nat (completed (exerciseStats a)) :: rat)))
        \<or> ((200 * stats_success (exerciseStats a) + completed (exerciseStats a))
               mod (2 * completed (exerciseStats a)) = 0
           \<and> updateExerciseStats a
               = Num (of_int (round (100 * of_nat (stats_success (exerciseStats a))
                                       / of_nat (completed (exerciseStats a)) :: rat) - 1))))"
proof -
  have zeroed: "stats_success (exerciseStats ((constructed cs p e)\<lparr>currentExercise := x\<rparr>))
      \<le> completed (exerciseStats ((constructed cs p e)\<lparr>currentExercise := x\<rparr>))"
    by (simp add: constructed_def)
  show ?thesis
    using submitExercise_counts[of a ed ex stringify now rnd]
      submissions_invariant[of a stringify now subs]
      submissions_invariant[OF zeroed, of stringify now subs]
      updateExerciseStats_zero[of a] updateExerciseStats_cases[of a]
    by blast
qed

lemma session_23_of_40:
  "completed (exerciseStats (submissions sample_stringify ''2024-05-01T10:00:00.000Z''
      (replicate 23 (right_answer, 0) @ replicate 17 (wrong_answer, 0)) practising)) = 40"
  "stats_success (exerciseStats (submissions sample_stringify ''2024-05-01T10:00:00.000Z''
      (replicate 23 (right_answer, 0) @ replicate 17 (wrong_answer, 0)) practising)) = 23"
  by code_simp+

lemma rate_23_of_40:
  "updateExerciseStats (submissions sample_stringify ''2024-05-01T10:00:00.000Z''
      (replicate 23 (right_answer, 0) @ replicate 17 (wrong_answer, 0)) practising) = Num 57"
  by code_simp

text \<open>
  The rate of C9 without the exception for ties does not hold.
  After 23 successes in 40 submissions the page shows 57%: the double nearest to
  \<open>23 / 40\<close> lies below it, and its hundredfold rounds to \<open>57.49999999999999\<close>, while
  \<open>100 * 23 / 40\<close> is \<open>57.5\<close> and rounds to 58.
\<close>

theorem success_rate_23_of_40:
  "updateExerciseStats (submissions sample_stringify ''2024-05-01T10:00:00.000Z''
      (replicate 23 (right_answer, 0) @ replicate 17 (wrong_answer, 0)) practising) = Num 57
   \<and> completed (exerciseStats (submissions sample_stringify ''2024-05-01T10:00:00.000Z''
      (replicate 23 (right_answer, 0) @ replicate 17 (wrong_answer, 0)) practising)) = 40
   \<and> stats_success (exerciseStats (submissions sample_stringify ''2024-05-01T10:00:00.000Z''
      (replicate 23 (right_answer, 0) @ replicate 17 (wrong_answer, 0)) practising)) = 23
   \<and> round (100 * 23 / 40 :: rat) = 58"
  using session_23_of_40 rate_23_of_40 by (simp add: round_def)

theorem exercise_stats_update_witness:
  "editor (practising\<lparr>editor := Some right_answer\<rparr>) = Some right_answer
   \<and> currentExercise (practising\<lparr>editor := Some right_answer\<rparr>) = Some greeting
   \<and> completed (exerciseStats (submitExercise sample_stringify ''t'' 0
         (practising\<lparr>editor := Some right_answer\<rparr>))) = 1
   \<and> stats_success (exerciseStats (submitExercise sample_stringify ''t'' 0
         (practising\<lparr>editor := Some right_answer\<rparr>))) = 1
   \<and> updateExerciseStats practising = Num 0
   \<and> updateExerciseStats (submitExercise sample_stringify ''t'' 0
         (practising\<lparr>editor := Some right_answer\<rparr>)) = Num 100
   \<and> stats_success (exerciseStats practising) \<le> completed (exerciseStats practising)
   \<and> stats_success (exerciseStats (submissions sample_stringify ''t''
         [(right_answer, 0), (wrong_answer, 0)] practising))
       \<le> completed (exerciseStats (submissions sample_stringify ''t''
         [(right_answer, 0), (wrong_answer, 0)] practising))"
proof -
  let ?a = "practising\<lparr>editor := Some right_answer\<rparr>"
  let ?b = "submitExercise sample_stringify ''t'' 0 ?a"
  have h: "editor ?a = Some right_answer" "currentExercise ?a = Some greeting"
      "completed (exerciseStats ?a) = 0" "stats_success (exerciseStats ?a) = 0"
      "completed (exerciseStats practising) = 0"
    by (simp_all add: practising_def constructed_def)
  have ok: "success (evaluateExercise greeting (editor_value right_answer)
                (editor_cursor right_answer) 0)"
    by (simp add: evaluateExercise_def greeting_def right_answer_def Let_def trim_hello_world)
  from exercise_stats_update[of ?a right_answer greeting sample_stringify "''t''" 0 "[]"]
  have one: "completed (exerciseStats ?b) = 1" "stats_success (exerciseStats ?b) = 1"
    using h ok by simp_all
  from exercise_stats_update[of practising right_answer greeting sample_stringify "''t''" 0 "[]"]
  have zero: "updateExerciseStats practising = Num 0"
    using h(5) by simp
  have r: "round (100 * of_nat 1 / of_nat 1 :: rat) = 100" "(200 * 1 + 1) mod (2 * 1) \<noteq> (0::nat)"
    by simp_all
  from exercise_stats_update[of ?b right_answer greeting sample_stringify "''t''" 0 "[]"]
  have "updateExerciseStats ?b = Num 100"
    using one r by simp
  moreover from exercise_stats_update[of practising right_answer greeting sample_stringify
      "''t''" 0 "[(right_answer, 0), (wrong_answer, 0)]"]
  have "stats_success (exerciseStats (submissions sample_stringify ''t''
         [(right_answer, 0), (wrong_answer, 0)] practising))
       \<le> completed (exerciseStats (submissions sample_stringify ''t''
         [(right_answer, 0), (wrong_answer, 0)] practising))"
    using h(5) by (simp add: practising_def constructed_def)
  ultimately show ?thesis using h one zero by (simp add: practising_def constructed_def)
qed

end
